theory Spec2Isabelle
  imports Complex_Main "HOL-Library.Multiset"
begin

section \<open>Strings\<close>

text \<open>
  Python's \<^verbatim>\<open>needle in haystack\<close> on strings, and \<^verbatim>\<open>re.search\<close> for the two
  patterns of the module, which are alternatives of literal words and therefore plain
  substring tests.
\<close>

fun starts_with :: "string \<Rightarrow> string \<Rightarrow> bool" where
  "starts_with s [] = True"
| "starts_with [] (c # p) = False"
| "starts_with (a # s) (c # p) = (a = c \<and> starts_with s p)"

fun contains :: "string \<Rightarrow> string \<Rightarrow> bool" where
  "contains [] p = (p = [])"
| "contains (a # s) p = (starts_with (a # s) p \<or> contains s p)"

definition KEYS_TEMPLATE :: "string list" where
  "KEYS_TEMPLATE =
     [''system.cpu.util'',
      ''vm.memory.util'',
      ''perf_counter_en['' @ [CHR 0x22, CHR 0x5C] @ ''PhysicalDisk(0 C:)'' @ [CHR 0x5C]
         @ ''% Idle Time'' @ [CHR 0x22] @ '',60]'',
      ''net.if.in'',
      ''net.if.out'']"

definition DATA_COLUMNS :: "string list" where
  "DATA_COLUMNS = [''Server'', ''Type'', ''unit measurements'', ''Min'', ''Avg'', ''Max'']"

definition search_bits :: "string \<Rightarrow> bool" where
  \<comment> \<open>\<^verbatim>\<open>re.search(r'Bits (received|sent)', name)\<close>\<close>
  "search_bits nm = (contains nm ''Bits received'' \<or> contains nm ''Bits sent'')"

definition search_utilization :: "string \<Rightarrow> bool" where
  \<comment> \<open>\<^verbatim>\<open>re.search(r'(Disk|CPU|Memory) utilization', name)\<close>\<close>
  "search_utilization nm =
     (contains nm ''Disk utilization'' \<or> contains nm ''CPU utilization''
      \<or> contains nm ''Memory utilization'')"

section \<open>Python floats\<close>

text \<open>
  A Python float is an IEEE 754 binary64 number. A finite one is kept as the rational it
  denotes; \<open>to_double\<close> rounds an exact rational result to the nearest binary64 number,
  ties to the even significand, with gradual underflow below \<open>2\<^sup>-\<^sup>1\<^sup>0\<^sup>2\<^sup>2\<close> and overflow to
  infinity from \<open>2\<^sup>1\<^sup>0\<^sup>2\<^sup>4\<close>. The two zeros are one value (they compare equal in Python).
\<close>

datatype pyfloat = Fin rat | PInf | NInf | NaN

definition pow2 :: "int \<Rightarrow> rat" where
  "pow2 e = (if 0 \<le> e then 2 ^ nat e else 1 / 2 ^ nat (- e))"

function bit_length :: "int \<Rightarrow> int" where
  "bit_length n = (if n \<le> 0 then 0 else 1 + bit_length (n div 2))"
  by pat_completeness auto
termination
  by (relation "measure nat") auto

declare bit_length.simps [simp del]

definition floor_log2 :: "rat \<Rightarrow> int" where
  \<comment> \<open>for \<open>0 < a\<close>: the exponent \<open>e\<close> with \<open>2\<^sup>e \<le> a < 2\<^sup>e\<^sup>+\<^sup>1\<close>\<close>
  "floor_log2 a = (if 1 \<le> a then bit_length \<lfloor>a\<rfloor> - 1
                   else - bit_length (\<lceil>1 / a\<rceil> - 1))"

definition round_half_even :: "rat \<Rightarrow> int" where
  "round_half_even x =
     (let f = \<lfloor>x\<rfloor>; d = x - of_int f
      in if d < 1 / 2 then f else if 1 / 2 < d then f + 1 else if even f then f else f + 1)"

definition to_double :: "rat \<Rightarrow> pyfloat" where
  "to_double q =
     (if q = 0 then Fin 0
      else let a = \<bar>q\<bar>;
               e = max (floor_log2 a) (- 1022);
               ulp = pow2 (e - 52);
               r = of_int (round_half_even (a / ulp)) * ulp
           in if pow2 1024 \<le> r then (if 0 < q then PInf else NInf)
              else Fin (if 0 < q then r else - r))"

fun float_add :: "pyfloat \<Rightarrow> pyfloat \<Rightarrow> pyfloat" where
  "float_add (Fin a) (Fin b) = to_double (a + b)"
| "float_add NaN y = NaN"
| "float_add x NaN = NaN"
| "float_add PInf NInf = NaN"
| "float_add NInf PInf = NaN"
| "float_add PInf y = PInf"
| "float_add x PInf = PInf"
| "float_add NInf y = NInf"
| "float_add x NInf = NInf"

text \<open>
  \<^verbatim>\<open>x / n\<close> for a float \<open>x\<close> and an int \<open>n\<close>. Python raises ZeroDivisionError for
  \<open>n = 0\<close>; the module divides by a list length under the guard \<^verbatim>\<open>len(values) > 1\<close> and by
  the literal \<^verbatim>\<open>1_000_000\<close> only, so the model gives that case the value \<open>NaN\<close> and never
  reaches it. The int operand converts to a float without rounding (it is below \<open>2\<^sup>5\<^sup>3\<close>).
\<close>

definition float_div_int :: "pyfloat \<Rightarrow> int \<Rightarrow> pyfloat" where
  "float_div_int x n =
     (if n = 0 then NaN
      else case x of
             Fin a \<Rightarrow> to_double (a / of_int n)
           | PInf \<Rightarrow> (if 0 < n then PInf else NInf)
           | NInf \<Rightarrow> (if 0 < n then NInf else PInf)
           | NaN \<Rightarrow> NaN)"

fun float_lt :: "pyfloat \<Rightarrow> pyfloat \<Rightarrow> bool" where
  "float_lt NaN y = False"
| "float_lt x NaN = False"
| "float_lt (Fin a) (Fin b) = (a < b)"
| "float_lt NInf NInf = False"
| "float_lt NInf y = True"
| "float_lt x NInf = False"
| "float_lt PInf y = False"
| "float_lt x PInf = True"

definition bps_to_mbps :: "pyfloat \<Rightarrow> pyfloat" where
  "bps_to_mbps bps = float_div_int bps 1000000"

text \<open>
  \<^verbatim>\<open>sum(values)\<close>: the accumulator starts at the int \<open>0\<close> and takes the items from left
  to right, one float addition each (the builtin of CPython up to 3.11; later versions
  carry a compensation term that changes low-order bits of some sums).
\<close>

fun sum_from :: "pyfloat \<Rightarrow> pyfloat list \<Rightarrow> pyfloat" where
  "sum_from acc [] = acc"
| "sum_from acc (v # vs) = sum_from (float_add acc v) vs"

definition py_sum :: "pyfloat list \<Rightarrow> pyfloat" where
  "py_sum vs = sum_from (Fin 0) vs"

text \<open>
  \<^verbatim>\<open>max(values)\<close> and \<^verbatim>\<open>min(values)\<close> keep the first item and replace it by a later
  one that compares strictly greater (smaller). On the empty list Python raises
  ValueError; both call sites are under the guard \<^verbatim>\<open>len(values) > 1\<close>, and the model gives
  the empty list the value \<open>NaN\<close>.
\<close>

fun max_from :: "pyfloat \<Rightarrow> pyfloat list \<Rightarrow> pyfloat" where
  "max_from m [] = m"
| "max_from m (v # vs) = max_from (if float_lt m v then v else m) vs"

fun min_from :: "pyfloat \<Rightarrow> pyfloat list \<Rightarrow> pyfloat" where
  "min_from m [] = m"
| "min_from m (v # vs) = min_from (if float_lt v m then v else m) vs"

fun py_max :: "pyfloat list \<Rightarrow> pyfloat" where
  "py_max [] = NaN"
| "py_max (v # vs) = max_from v vs"

fun py_min :: "pyfloat list \<Rightarrow> pyfloat" where
  "py_min [] = NaN"
| "py_min (v # vs) = min_from v vs"

text \<open>
  \<^verbatim>\<open>float(f"{x:.1f}")\<close>: the formatting writes the exact value of the float rounded to one
  decimal digit, ties to the even digit; \<^verbatim>\<open>float\<close> then reads that decimal as the nearest
  binary64 number.
\<close>

definition decimal1 :: "rat \<Rightarrow> rat" where
  "decimal1 q = of_int (round_half_even (q * 10)) / 10"

fun round1 :: "pyfloat \<Rightarrow> pyfloat" where
  "round1 (Fin q) = to_double (decimal1 q)"
| "round1 x = x"

text \<open>
  A left-to-right sum is exact when no addition rounds: every running sum is a binary64
  number.
\<close>

fun exact_from :: "rat \<Rightarrow> rat list \<Rightarrow> bool" where
  "exact_from acc [] = True"
| "exact_from acc (v # vs) = (to_double (acc + v) = Fin (acc + v) \<and> exact_from (acc + v) vs)"

section \<open>Data model\<close>

text \<open>
  The dictionaries of the module with the keys the code reads. A history sample carries
  the float that \<^verbatim>\<open>float(h["value"])\<close> reads from the numeric string of the API, which is a
  finite number. A calendar day is the number of days since 1970-01-01, a wall-clock time
  the number of seconds since 1970-01-01 00:00 on the local calendar, an instant the
  number of seconds since the epoch (\<^verbatim>\<open>change_utc2timestamp\<close>).
\<close>

datatype error =
    HostNotFound string
  | UnknownTimeZoneError string
  | ApiError string
  | OSError string

record zbx_host =
  hostid :: string
  host :: string

record zbx_item =
  itemid :: string
  item_name :: string
  item_key :: string

record sample =
  sample_clock :: int
  sample_value :: rat

record day_range =
  date :: int
  time_from :: int
  time_till :: int
  readable_utc_start :: int

record day_entry =
  day_date :: int
  day_itemid :: string
  day_avg :: pyfloat
  day_min :: pyfloat
  day_max :: pyfloat
  day_history_count :: nat

record total_entry =
  total_itemid :: string
  total_avg :: pyfloat
  total_min :: pyfloat
  total_max :: pyfloat
  total_history_count :: nat

record host_info =
  info_hostid :: string
  host_name :: string
  host_vname :: string

record item_state =
  item :: zbx_item
  item_host :: host_info
  list_of_days :: "day_entry list"
  list_of_history_for_total :: "sample list"
  list_of_total :: "total_entry list"

record report_row =
  row_server :: string
  row_type :: string
  row_unit :: string
  row_min :: pyfloat
  row_avg :: pyfloat
  row_max :: pyfloat

text \<open>
  The monitoring API is an external collaborator: a session answers each request with a
  list or raises. \<open>item_get\<close> is the enumeration of the enabled items of a host
  (\<^verbatim>\<open>filter: {status: 0}\<close>), \<open>item_search\<close> the lookup of \<^verbatim>\<open>get_item\<close>. A history request
  carries the item, the window and the storage class; its other entries are the same in
  every request (\<^verbatim>\<open>output\<close>, \<^verbatim>\<open>sortfield\<close>, \<^verbatim>\<open>sortorder\<close>).
\<close>

record history_query =
  q_itemids :: string
  q_time_from :: int
  q_time_till :: int
  q_history :: nat

record zabbix_api =
  host_get :: "string \<Rightarrow> error + zbx_host list"
  item_get :: "string \<Rightarrow> error + zbx_item list"
  item_search :: "string \<Rightarrow> string \<Rightarrow> error + zbx_item list"
  history_get :: "history_query \<Rightarrow> error + sample list"

text \<open>
  A time zone of \<^verbatim>\<open>pytz\<close>: \<open>fromutc\<close> gives the wall-clock time of an instant
  (\<^verbatim>\<open>astimezone\<close>), \<open>localize\<close> the instant that \<^verbatim>\<open>localize\<close> assigns to a wall-clock time.
\<close>

record tzinfo =
  localize :: "int \<Rightarrow> int"
  fromutc :: "int \<Rightarrow> int"

record environment =
  HAS_ZABBIX :: bool
  zabbix_login :: "string \<Rightarrow> string \<Rightarrow> string \<Rightarrow> error + zabbix_api"
  pytz_timezone :: "string \<Rightarrow> tzinfo option"
  now_utc :: int

record module_params =
  zabbix_server :: string
  username :: string
  password :: string
  host_names :: "string list"
  days_back :: int
  timezone :: string
  output_path :: string

record excel_file =
  columns :: "string list"
  data_rows :: "report_row list"

record filesystem =
  dirs :: "string set"
  files :: "string \<Rightarrow> excel_file option"

datatype fail_msg = MissingLibrary | ErrorCollecting error

datatype module_result =
    Exit_json string "report_row list"
  | Fail_json fail_msg

section \<open>Time windows\<close>

definition day_window :: "tzinfo \<Rightarrow> int \<Rightarrow> day_range" where
  "day_window tz target_date =
     (let start_utc = localize tz (target_date * 86400 + 9 * 3600);
          end_utc = localize tz (target_date * 86400 + 18 * 3600)
      in \<lparr>date = target_date, time_from = start_utc, time_till = end_utc,
          readable_utc_start = start_utc\<rparr>)"

definition get_timestamp_ekb2timestamp ::
  "environment \<Rightarrow> string \<Rightarrow> int \<Rightarrow> error + day_range list" where
  "get_timestamp_ekb2timestamp env timezone_str n =
     (case pytz_timezone env timezone_str of
        None \<Rightarrow> Inl (UnknownTimeZoneError timezone_str)
      | Some ekb_tz \<Rightarrow>
          (let now_ekb = fromutc ekb_tz (now_utc env);
               base_date = (if now_ekb mod 86400 < 9 * 3600 then now_ekb div 86400 - 1
                            else now_ekb div 86400)
           in Inr (map (\<lambda>i. day_window ekb_tz (base_date - int i)) [0..<nat (n + 1)])))"

section \<open>Collecting the metrics of a host\<close>

definition connect_zabbix :: "environment \<Rightarrow> string \<Rightarrow> string \<Rightarrow> string \<Rightarrow> error + zabbix_api" where
  "connect_zabbix env server usr pwd = zabbix_login env server usr pwd"

definition get_host_id :: "zabbix_api \<Rightarrow> string \<Rightarrow> error + string \<times> string" where
  "get_host_id zapi hname =
     (case host_get zapi hname of
        Inl e \<Rightarrow> Inl e
      | Inr [] \<Rightarrow> Inl (HostNotFound hname)
      | Inr (h # hs) \<Rightarrow> Inr (hostid h, host h))"

definition get_item :: "zabbix_api \<Rightarrow> string \<Rightarrow> string \<Rightarrow> error + zbx_item list" where
  "get_item zapi host_id key = item_search zapi host_id key"

fun match_templates :: "zbx_item \<Rightarrow> string list \<Rightarrow> string list" where
  "match_templates it [] = []"
| "match_templates it (key # templates) =
     (if contains (item_key it) key then [item_key it] else []) @ match_templates it templates"

fun find_keys :: "zbx_item list \<Rightarrow> string list" where
  "find_keys [] = []"
| "find_keys (it # all_items) = match_templates it KEYS_TEMPLATE @ find_keys all_items"

fun resolve_items :: "zabbix_api \<Rightarrow> string \<Rightarrow> string list \<Rightarrow> error + zbx_item list" where
  "resolve_items zapi host_id [] = Inr []"
| "resolve_items zapi host_id (key # keys) =
     (case get_item zapi host_id key of
        Inl e \<Rightarrow> Inl e
      | Inr item_result \<Rightarrow>
          (case resolve_items zapi host_id keys of
             Inl e \<Rightarrow> Inl e
           | Inr items \<Rightarrow> Inr ((case item_result of [] \<Rightarrow> [] | r # rs \<Rightarrow> [r]) @ items)))"

definition init_item :: "string \<Rightarrow> string \<Rightarrow> string \<Rightarrow> zbx_item \<Rightarrow> item_state" where
  "init_item host_id host_real_name hname it =
     \<lparr>item = it,
      item_host = \<lparr>info_hostid = host_id, host_name = host_real_name, host_vname = hname\<rparr>,
      list_of_days = [], list_of_history_for_total = [], list_of_total = []\<rparr>"

definition history_request :: "zbx_item \<Rightarrow> day_range \<Rightarrow> history_query" where
  "history_request it dr =
     \<lparr>q_itemids = itemid it, q_time_from = time_from dr, q_time_till = time_till dr,
      q_history = (if contains (item_key it) ''net.if.'' then 3 else 0)\<rparr>"

definition add_history :: "day_range \<Rightarrow> item_state \<Rightarrow> sample list \<Rightarrow> item_state" where
  "add_history dr st history =
     (if history \<noteq> [] then
        (let vals = map (\<lambda>h. Fin (sample_value h)) history;
             st1 = (if 1 < length vals then
                      (let avg = float_div_int (py_sum vals) (int (length vals));
                           max_value = py_max vals;
                           min_value = py_min vals
                       in st\<lparr>list_of_days := list_of_days st @
                            [\<lparr>day_date = date dr, day_itemid = item_name (item st),
                              day_avg = round1 avg, day_min = round1 min_value,
                              day_max = round1 max_value,
                              day_history_count = length history\<rparr>]\<rparr>)
                    else st)
         in st1\<lparr>list_of_history_for_total := list_of_history_for_total st1 @ history\<rparr>)
      else st)"

text \<open>
  The two nested loops over the windows and the items. Next to its result each loop
  returns the history requests it sent, in the order of sending.
\<close>

fun collect_day ::
  "zabbix_api \<Rightarrow> day_range \<Rightarrow> item_state list \<Rightarrow> (error + item_state list) \<times> history_query list" where
  "collect_day zapi dr [] = (Inr [], [])"
| "collect_day zapi dr (st # sts) =
     (case history_get zapi (history_request (item st) dr) of
        Inl e \<Rightarrow> (Inl e, [history_request (item st) dr])
      | Inr history \<Rightarrow>
          (case collect_day zapi dr sts of
             (Inl e, sent) \<Rightarrow> (Inl e, history_request (item st) dr # sent)
           | (Inr sts', sent) \<Rightarrow>
               (Inr (add_history dr st history # sts'), history_request (item st) dr # sent)))"

fun collect_history ::
  "zabbix_api \<Rightarrow> day_range list \<Rightarrow> item_state list \<Rightarrow> (error + item_state list) \<times> history_query list" where
  "collect_history zapi [] sts = (Inr sts, [])"
| "collect_history zapi (dr # day_ranges) sts =
     (case collect_day zapi dr sts of
        (Inl e, sent) \<Rightarrow> (Inl e, sent)
      | (Inr sts', sent) \<Rightarrow>
          (case collect_history zapi day_ranges sts' of
             (res, sent') \<Rightarrow> (res, sent @ sent')))"

definition compute_total :: "item_state \<Rightarrow> item_state" where
  "compute_total st =
     (let vals = map (\<lambda>h. Fin (sample_value h)) (list_of_history_for_total st)
      in if 1 < length vals then
           (let avg = float_div_int (py_sum vals) (int (length vals));
                max_value = py_max vals;
                min_value = py_min vals
            in st\<lparr>list_of_total := list_of_total st @
                 [\<lparr>total_itemid = item_name (item st),
                   total_avg = round1 avg, total_min = round1 min_value,
                   total_max = round1 max_value,
                   total_history_count = length (list_of_history_for_total st)\<rparr>]\<rparr>)
         else st)"

definition report_row_of :: "item_state \<Rightarrow> report_row list" where
  "report_row_of st =
     (case list_of_total st of
        [] \<Rightarrow> []
      | t # ts \<Rightarrow>
          (let min0 = total_min t; avg0 = total_avg t; max0 = total_max t;
               unit_measurements =
                 (if search_bits (item_name (item st)) then ''Mbps''
                  else if search_utilization (item_name (item st)) then ''%''
                  else ''count'');
               min_val = (if \<not> search_bits (item_name (item st)) then min0 else bps_to_mbps min0);
               avg_val = (if \<not> search_bits (item_name (item st)) then avg0 else bps_to_mbps avg0);
               max_val = (if \<not> search_bits (item_name (item st)) then max0 else bps_to_mbps max0)
           in [\<lparr>row_server = host_vname (item_host st), row_type = item_name (item st),
                row_unit = unit_measurements, row_min = min_val, row_avg = avg_val,
                row_max = max_val\<rparr>]))"

fun report_rows :: "item_state list \<Rightarrow> report_row list" where
  "report_rows [] = []"
| "report_rows (st # sts) = report_row_of st @ report_rows sts"

definition collect_host_metrics ::
  "zabbix_api \<Rightarrow> environment \<Rightarrow> string \<Rightarrow> int \<Rightarrow> string \<Rightarrow> error + report_row list" where
  "collect_host_metrics zapi env hname n timezone_str =
     (case get_host_id zapi hname of
        Inl e \<Rightarrow> Inl e
      | Inr (host_id, host_real_name) \<Rightarrow>
     (case item_get zapi host_id of
        Inl e \<Rightarrow> Inl e
      | Inr all_items \<Rightarrow>
     (case get_timestamp_ekb2timestamp env timezone_str n of
        Inl e \<Rightarrow> Inl e
      | Inr day_ranges \<Rightarrow>
     (case resolve_items zapi host_id (find_keys all_items) of
        Inl e \<Rightarrow> Inl e
      | Inr items \<Rightarrow>
          if items = [] then Inr []
          else (case fst (collect_history zapi day_ranges
                            (map (init_item host_id host_real_name hname) items)) of
                  Inl e \<Rightarrow> Inl e
                | Inr sts \<Rightarrow> Inr (report_rows (map compute_total sts)))))))"

section \<open>The module\<close>

text \<open>
  The file system and the spreadsheet writer are external collaborators. A directory
  exists when its path is in \<open>dirs\<close>; the empty directory part of a bare file name is the
  working directory. \<^verbatim>\<open>DataFrame.to_excel\<close> creates or overwrites the file when the
  directory part of the path exists, and raises otherwise; \<^verbatim>\<open>os.makedirs\<close> creates the
  directory with every missing directory above it.
\<close>

definition os_path_dirname :: "string \<Rightarrow> string" where
  "os_path_dirname p =
     (let head = take (length p - length (takeWhile (\<lambda>c. c \<noteq> CHR ''/'') (rev p))) p
      in if head \<noteq> [] \<and> filter (\<lambda>c. c \<noteq> CHR ''/'') head \<noteq> []
         then rev (dropWhile (\<lambda>c. c = CHR ''/'') (rev head))
         else head)"

definition os_path_exists :: "filesystem \<Rightarrow> string \<Rightarrow> bool" where
  "os_path_exists fs p = (p \<in> dirs fs \<or> files fs p \<noteq> None)"

definition path_prefixes :: "string \<Rightarrow> string list" where
  "path_prefixes p =
     map (\<lambda>k. take k p)
       (filter (\<lambda>k. k = length p \<or> take 1 (drop k p) = ''/'') [1..<Suc (length p)])"

definition os_makedirs :: "filesystem \<Rightarrow> string \<Rightarrow> error + filesystem" where
  "os_makedirs fs d =
     (if list_ex (\<lambda>q. files fs q \<noteq> None) (path_prefixes d) then Inl (OSError d)
      else Inr (fs\<lparr>dirs := dirs fs \<union> set (path_prefixes d)\<rparr>))"

definition to_excel :: "filesystem \<Rightarrow> string \<Rightarrow> excel_file \<Rightarrow> error + filesystem" where
  "to_excel fs path df =
     (if (os_path_dirname path = [] \<or> os_path_dirname path \<in> dirs fs) \<and> path \<notin> dirs fs
      then Inr (fs\<lparr>files := (files fs)(path \<mapsto> df)\<rparr>)
      else Inl (OSError path))"

fun collect_all ::
  "zabbix_api \<Rightarrow> environment \<Rightarrow> int \<Rightarrow> string \<Rightarrow> string list \<Rightarrow> report_row list
   \<Rightarrow> error + report_row list" where
  "collect_all zapi env n timezone_str [] all_metrics = Inr all_metrics"
| "collect_all zapi env n timezone_str (hname # hnames) all_metrics =
     (case collect_host_metrics zapi env hname n timezone_str of
        Inl e \<Rightarrow> Inl e
      | Inr host_metrics \<Rightarrow>
          collect_all zapi env n timezone_str hnames (all_metrics @ host_metrics))"

definition write_report ::
  "filesystem \<Rightarrow> string \<Rightarrow> report_row list \<Rightarrow> error + filesystem" where
  "write_report fs path all_metrics =
     (if all_metrics \<noteq> [] then
        (case (if os_path_dirname path \<noteq> [] \<and> \<not> os_path_exists fs (os_path_dirname path)
               then os_makedirs fs (os_path_dirname path) else Inr fs) of
           Inl e \<Rightarrow> Inl e
         | Inr fs1 \<Rightarrow> to_excel fs1 path \<lparr>columns = DATA_COLUMNS, data_rows = all_metrics\<rparr>)
      else to_excel fs path \<lparr>columns = DATA_COLUMNS, data_rows = []\<rparr>)"

definition main :: "environment \<Rightarrow> module_params \<Rightarrow> filesystem \<Rightarrow> module_result \<times> filesystem" where
  "main env params fs =
     (if \<not> HAS_ZABBIX env then (Fail_json MissingLibrary, fs)
      else case connect_zabbix env (zabbix_server params) (username params) (password params) of
             Inl e \<Rightarrow> (Fail_json (ErrorCollecting e), fs)
           | Inr zapi \<Rightarrow>
               (case collect_all zapi env (days_back params) (timezone params)
                       (host_names params) [] of
                  Inl e \<Rightarrow> (Fail_json (ErrorCollecting e), fs)
                | Inr all_metrics \<Rightarrow>
                    (case write_report fs (output_path params) all_metrics of
                       Inl e \<Rightarrow> (Fail_json (ErrorCollecting e), fs)
                     | Inr fs' \<Rightarrow> (Exit_json (output_path params) all_metrics, fs'))))"

section \<open>What a run observes\<close>

text \<open>
  The answers of the API that a run of \<open>collect_host_metrics\<close> reads, as functions of the
  host and the item: the samples of an item in one window and in all windows, the items
  that the resolver obtains for a host, the windows, and the rows that the totals and the
  output loop produce for an item whose accumulated samples are given.
\<close>

definition window_samples :: "zabbix_api \<Rightarrow> day_range \<Rightarrow> zbx_item \<Rightarrow> sample list" where
  "window_samples zapi dr it =
     (case history_get zapi (history_request it dr) of Inl e \<Rightarrow> [] | Inr history \<Rightarrow> history)"

definition total_samples :: "zabbix_api \<Rightarrow> day_range list \<Rightarrow> zbx_item \<Rightarrow> sample list" where
  "total_samples zapi day_ranges it = concat (map (\<lambda>dr. window_samples zapi dr it) day_ranges)"

definition resolved_for_key :: "zabbix_api \<Rightarrow> string \<Rightarrow> string \<Rightarrow> zbx_item list" where
  "resolved_for_key zapi host_id key =
     (case get_item zapi host_id key of
        Inl e \<Rightarrow> []
      | Inr item_result \<Rightarrow> (case item_result of [] \<Rightarrow> [] | r # rs \<Rightarrow> [r]))"

definition enabled_items :: "zabbix_api \<Rightarrow> string \<Rightarrow> zbx_item list" where
  "enabled_items zapi hname =
     (case get_host_id zapi hname of
        Inl e \<Rightarrow> []
      | Inr (host_id, host_real_name) \<Rightarrow>
          (case item_get zapi host_id of Inl e \<Rightarrow> [] | Inr all_items \<Rightarrow> all_items))"

definition resolved_metrics :: "zabbix_api \<Rightarrow> string \<Rightarrow> zbx_item list" where
  "resolved_metrics zapi hname =
     (case get_host_id zapi hname of
        Inl e \<Rightarrow> []
      | Inr (host_id, host_real_name) \<Rightarrow>
          concat (map (resolved_for_key zapi host_id) (find_keys (enabled_items zapi hname))))"



definition metric_rows :: "string \<Rightarrow> zbx_item \<Rightarrow> sample list \<Rightarrow> report_row list" where
  "metric_rows hname it smp =
     report_row_of (compute_total
       \<lparr>item = it,
        item_host = \<lparr>info_hostid = [], host_name = [], host_vname = hname\<rparr>,
        list_of_days = [], list_of_history_for_total = smp, list_of_total = []\<rparr>)"

definition key_rows ::
  "zabbix_api \<Rightarrow> day_range list \<Rightarrow> string \<Rightarrow> string \<Rightarrow> string \<Rightarrow> report_row list" where
  \<comment> \<open>the rows that one entry of the key list brings into the table\<close>
  "key_rows zapi day_ranges host_id hname key =
     concat (map (\<lambda>it. metric_rows hname it (total_samples zapi day_ranges it))
               (resolved_for_key zapi host_id key))"

section \<open>Example inputs\<close>

text \<open>
  A host without items, and a host with a CPU item, a network item, a memory item with a single sample, an item
  that no template matches, and a calculated item whose key contains two templates; a
  zone five hours ahead of UTC; and a zone whose clocks went from 09:00 to 10:00 at
  1979-04-01 07:00 UTC, as those of Europe/Athens did.
\<close>

definition example_items :: "zbx_item list" where
  "example_items =
     [\<lparr>itemid = ''101'', item_name = ''CPU utilization'', item_key = ''system.cpu.util''\<rparr>,
      \<lparr>itemid = ''102'', item_name = ''Interface eth0: Bits received'', item_key = ''net.if.in[eth0]''\<rparr>,
      \<lparr>itemid = ''103'', item_name = ''Memory utilization'', item_key = ''vm.memory.util''\<rparr>,
      \<lparr>itemid = ''104'', item_name = ''Uptime'', item_key = ''system.uptime''\<rparr>,
      \<lparr>itemid = ''105'', item_name = ''Interface eth0: total'',
        item_key = ''calc[net.if.in[eth0],net.if.out[eth0]]''\<rparr>]"

definition example_history :: "history_query \<Rightarrow> sample list" where
  "example_history q =
     (if q_time_from q = 1793764800 \<and> q_time_till q = 1793797200 then
        (if q_itemids q = ''101'' \<and> q_history q = 0 then
           [\<lparr>sample_clock = 1793790000, sample_value = 20\<rparr>,
            \<lparr>sample_clock = 1793780000, sample_value = 10\<rparr>]
         else if q_itemids q = ''102'' \<and> q_history q = 3 then
           [\<lparr>sample_clock = 1793790000, sample_value = 4000000\<rparr>,
            \<lparr>sample_clock = 1793780000, sample_value = 2000000\<rparr>]
         else if q_itemids q = ''103'' \<and> q_history q = 0 then
           [\<lparr>sample_clock = 1793790000, sample_value = 50\<rparr>]
         else if q_itemids q = ''105'' \<and> q_history q = 3 then
           [\<lparr>sample_clock = 1793790000, sample_value = 7\<rparr>,
            \<lparr>sample_clock = 1793780000, sample_value = 5\<rparr>]
         else [])
      else [])"

definition example_api :: zabbix_api where
  "example_api =
     \<lparr>host_get = (\<lambda>h. if h = ''KDC (192.168.8.3)''
                          then Inr [\<lparr>hostid = ''10084'', host = ''kdc''\<rparr>]
                        else if h = ''DB (192.168.8.4)''
                          then Inr [\<lparr>hostid = ''10085'', host = ''db''\<rparr>]
                        else Inr []),
      item_get = (\<lambda>hid. if hid = ''10084'' then Inr example_items else Inr []),
      item_search = (\<lambda>hid key. if hid = ''10084''
                          then Inr (filter (\<lambda>it. contains (item_key it) key) example_items)
                          else Inr []),
      history_get = (\<lambda>q. Inr (example_history q))\<rparr>"

definition example_tz :: tzinfo where
  "example_tz = \<lparr>localize = (\<lambda>l. l - 18000), fromutc = (\<lambda>t. t + 18000)\<rparr>"

definition spring_forward_tz :: tzinfo where
  "spring_forward_tz =
     \<lparr>localize = (\<lambda>l. if l < 291808800 then l - 7200 else l - 10800),
      fromutc = (\<lambda>t. if t < 291798000 then t + 7200 else t + 10800)\<rparr>"

definition example_env :: environment where
  "example_env =
     \<lparr>HAS_ZABBIX = True,
      zabbix_login = (\<lambda>server usr pwd. Inr example_api),
      pytz_timezone = (\<lambda>s. if s = ''Asia/Yekaterinburg'' then Some example_tz
                           else if s = ''Europe/Athens'' then Some spring_forward_tz
                           else None),
      now_utc = 1793786400\<rparr>"

definition example_params :: module_params where
  "example_params =
     \<lparr>zabbix_server = ''zbx.example/zabbix'', username = ''kvg'', password = ''secret'',
      host_names = [''KDC (192.168.8.3)''], days_back = 0,
      timezone = ''Asia/Yekaterinburg'',
      output_path = ''/tmp/reports/server_metrics.xlsx''\<rparr>"

definition example_fs :: filesystem where
  "example_fs = \<lparr>dirs = {''/tmp''}, files = (\<lambda>p. None)\<rparr>"

section \<open>The rounding to binary64\<close>

text \<open>
  \<open>floor_log2\<close> finds the binade of a positive rational, so \<open>to_double\<close> rounds in
  units of the last place of that binade. The lemma \<open>to_double_at\<close> evaluates the
  rounding once the binade is known.
\<close>

lemma pow2_powi: "pow2 e = 2 powi e"
  unfolding pow2_def power_int_def by (simp add: field_simps)

lemma pow2_pos: "0 < pow2 e"
  unfolding pow2_def by simp

lemma pow2_mono: "e \<le> f \<Longrightarrow> pow2 e \<le> pow2 f"
  unfolding pow2_powi by (rule power_int_increasing) simp_all

lemma pow2_strict_mono: "e < f \<Longrightarrow> pow2 e < pow2 f"
  unfolding pow2_powi by (rule power_int_strict_increasing) simp_all

lemma pow2_nat: "pow2 (int n) = 2 ^ n"
  by (simp add: pow2_def)

lemma pow2_neg: "pow2 (- e) = 1 / pow2 e"
  unfolding pow2_powi power_int_minus by (simp add: field_simps)

lemma bit_length_nonpos: "n \<le> 0 \<Longrightarrow> bit_length n = 0"
  by (subst bit_length.simps) simp

lemma bit_length_pos: "0 < n \<Longrightarrow> bit_length n = 1 + bit_length (n div 2)"
  by (subst bit_length.simps) simp

lemma bit_length_1_step: "bit_length 1 = 1 + bit_length 0" using bit_length_pos[of 1] by simp
lemma bit_length_1: "bit_length 1 = 1" using bit_length_1_step bit_length_nonpos[of 0] by simp
lemma bit_length_bounds_1: "n = 1 \<Longrightarrow> 0 < bit_length n \<and> 2 ^ nat (bit_length n - 1) \<le> n \<and> n < 2 ^ nat (bit_length n)"
  using bit_length_1 by simp
lemma twice_half_le: "2 * ((n::int) div 2) \<le> n" by presburger
lemma less_twice_half: "(n::int) < 2 * (n div 2) + 2" by presburger
lemma nat_pred_Suc: "bit_length n = 1 + b \<Longrightarrow> 0 < b \<Longrightarrow> nat (bit_length n - 1) = Suc (nat (b - 1))"
  by linarith


lemma double_le_of_half: "(P::int) \<le> n div 2 \<Longrightarrow> 2 * P \<le> n" using twice_half_le[of n] by linarith
lemma less_double_of_half: "n div 2 < (P::int) \<Longrightarrow> n < 2 * P" using less_twice_half[of n] by linarith
lemma half_pos: "0 < (n::int) \<Longrightarrow> n \<noteq> 1 \<Longrightarrow> 0 < n div 2" by presburger

lemma bit_length_bounds:
  "0 < k \<Longrightarrow> 0 < bit_length k \<and> 2 ^ nat (bit_length k - 1) \<le> k \<and> k < 2 ^ nat (bit_length k)"
proof (induction k rule: bit_length.induct)
  case (1 n)
  show ?case
  proof (cases "n = 1")
    case True
    then show ?thesis using bit_length_bounds_1 by blast
  next
    case False
    from "1.prems" False have half: "0 < n div 2" by (rule half_pos)
    have "\<not> n \<le> 0" using "1.prems" by simp
    from "1.IH"[OF this half] have ih1: "0 < bit_length (n div 2)"
      and ih2: "2 ^ nat (bit_length (n div 2) - 1) \<le> n div 2"
      and ih3: "n div 2 < 2 ^ nat (bit_length (n div 2))"
      by blast+
    have bl: "bit_length n = 1 + bit_length (n div 2)" using "1.prems" by (rule bit_length_pos)
    have e1: "nat (bit_length n - 1) = Suc (nat (bit_length (n div 2) - 1))"
      using bl ih1 by (rule nat_pred_Suc)
    have e2: "nat (bit_length n) = Suc (nat (bit_length (n div 2)))"
      using bl ih1 by linarith
    have c1: "0 < bit_length n" using bl ih1 by linarith
    have c2: "2 ^ nat (bit_length n - 1) \<le> n"
      using double_le_of_half[OF ih2] by (simp only: e1 power_Suc)
    have c3: "n < 2 ^ nat (bit_length n)"
      using less_double_of_half[OF ih3] by (simp only: e2 power_Suc)
    from c1 c2 c3 show ?thesis by blast
  qed
qed


lemma floor_log2_ge1:
  assumes "1 \<le> a"
  shows "pow2 (floor_log2 a) \<le> a \<and> a < pow2 (floor_log2 a + 1)"
proof -
  define k where "k = \<lfloor>a\<rfloor>"
  have k1: "0 < k" using assms unfolding k_def by linarith
  note bb = bit_length_bounds[OF k1]
  define b where "b = bit_length k"
  have b0: "0 < b" and lo: "2 ^ nat (b - 1) \<le> k" and hi: "k < 2 ^ nat b"
    using bb unfolding b_def by blast+
  have fl: "floor_log2 a = b - 1"
    using assms by (simp add: floor_log2_def k_def b_def)
  have "pow2 (b - 1) = 2 ^ nat (b - 1)" using b0 by (simp add: pow2_def)
  also have "\<dots> = of_int (2 ^ nat (b - 1))" by simp
  also have "\<dots> \<le> of_int k" using lo by (simp only: of_int_le_iff)
  also have "\<dots> \<le> a" unfolding k_def by simp
  finally have c1: "pow2 (b - 1) \<le> a" .
  have "k + 1 \<le> 2 ^ nat b" using hi by simp
  then have "(of_int (k + 1) :: rat) \<le> of_int (2 ^ nat b)" by (simp only: of_int_le_iff)
  moreover have "a < of_int (k + 1)" unfolding k_def by linarith
  ultimately have "a < of_int (2 ^ nat b)" by linarith
  moreover have "pow2 b = of_int (2 ^ nat b)" using b0 by (simp add: pow2_def)
  ultimately have c2: "a < pow2 (b - 1 + 1)" by simp
  from c1 c2 fl show ?thesis by simp
qed

lemma floor_log2_lt1:
  assumes "0 < a" "a < 1"
  shows "pow2 (floor_log2 a) \<le> a \<and> a < pow2 (floor_log2 a + 1)"
proof -
  define x where "x = 1 / a"
  have x1: "1 < x" using assms by (simp add: x_def)
  have xa: "a = 1 / x" by (simp add: x_def)
  define c where "c = \<lceil>x\<rceil> - 1"
  have c1: "0 < c" using x1 unfolding c_def by linarith
  have cx: "of_int c < x" unfolding c_def by linarith
  have xc: "x \<le> of_int (c + 1)" unfolding c_def by simp
  note bb = bit_length_bounds[OF c1]
  define b where "b = bit_length c"
  have b0: "0 < b" and lo: "2 ^ nat (b - 1) \<le> c" and hi: "c < 2 ^ nat b"
    using bb unfolding b_def by blast+
  have fl: "floor_log2 a = - b"
    using assms by (simp add: floor_log2_def c_def b_def x_def)
  have "c + 1 \<le> 2 ^ nat b" using hi by simp
  then have "(of_int (c + 1) :: rat) \<le> of_int (2 ^ nat b)" by (simp only: of_int_le_iff)
  with xc have "x \<le> of_int (2 ^ nat b)" by linarith
  moreover have "pow2 b = of_int (2 ^ nat b)" using b0 by (simp add: pow2_def)
  ultimately have xb: "x \<le> pow2 b" by simp
  have "(of_int (2 ^ nat (b - 1)) :: rat) \<le> of_int c" using lo by (simp only: of_int_le_iff)
  with cx have "of_int (2 ^ nat (b - 1)) < x" by linarith
  moreover have "pow2 (b - 1) = of_int (2 ^ nat (b - 1))" using b0 by (simp add: pow2_def)
  ultimately have bx: "pow2 (b - 1) < x" by simp
  have xpos: "0 < x" using x1 by simp
  have "1 / pow2 b \<le> 1 / x" using xb xpos by (simp add: frac_le)
  then have r1: "pow2 (- b) \<le> a" by (simp add: pow2_neg xa)
  have "1 / x < 1 / pow2 (b - 1)" using bx pow2_pos[of "b - 1"] by (simp add: frac_less2)
  moreover have "pow2 (- b + 1) = 1 / pow2 (b - 1)" using pow2_neg[of "b - 1"] by simp
  ultimately have r2: "a < pow2 (- b + 1)" by (simp add: xa)
  from r1 r2 fl show ?thesis by simp
qed

lemma floor_log2_bounds:
  "0 < a \<Longrightarrow> pow2 (floor_log2 a) \<le> a \<and> a < pow2 (floor_log2 a + 1)"
  using floor_log2_ge1[of a] floor_log2_lt1[of a] by (cases "1 \<le> a") simp_all

lemma floor_log2_unique:
  assumes "pow2 e \<le> a" "a < pow2 (e + 1)"
  shows "floor_log2 a = e"
proof -
  have a0: "0 < a" using assms(1) pow2_pos[of e] by linarith
  note fb = floor_log2_bounds[OF a0]
  define f where "f = floor_log2 a"
  have f1: "pow2 f \<le> a" and f2: "a < pow2 (f + 1)" using fb unfolding f_def by blast+
  have "\<not> e < f"
  proof
    assume "e < f"
    then have "pow2 (e + 1) \<le> pow2 f" by (intro pow2_mono) simp
    with f1 assms(2) show False by linarith
  qed
  moreover have "\<not> f < e"
  proof
    assume "f < e"
    then have "pow2 (f + 1) \<le> pow2 e" by (intro pow2_mono) simp
    with f2 assms(1) show False by linarith
  qed
  ultimately show ?thesis unfolding f_def by linarith
qed

lemma to_double_at:
  assumes "pow2 e \<le> \<bar>q\<bar>" "\<bar>q\<bar> < pow2 (e + 1)"
  shows "to_double q =
           (if pow2 1024 \<le> of_int (round_half_even (\<bar>q\<bar> / pow2 (max e (- 1022) - 52)))
                              * pow2 (max e (- 1022) - 52)
            then (if 0 < q then PInf else NInf)
            else Fin (if 0 < q
                      then of_int (round_half_even (\<bar>q\<bar> / pow2 (max e (- 1022) - 52)))
                             * pow2 (max e (- 1022) - 52)
                      else - (of_int (round_half_even (\<bar>q\<bar> / pow2 (max e (- 1022) - 52)))
                             * pow2 (max e (- 1022) - 52))))"
proof -
  have q0: "q \<noteq> 0" using assms(1) pow2_pos[of e] by auto
  have fl: "floor_log2 \<bar>q\<bar> = e" using assms by (rule floor_log2_unique)
  show ?thesis unfolding to_double_def Let_def fl by (simp only: q0 if_False)
qed


lemma floor_rat_numeral_div: "\<lfloor>numeral a / numeral b :: rat\<rfloor> = numeral a div numeral b"
  by (metis floor_divide_of_int_eq of_int_numeral)

lemmas float_at = pow2_def round_half_even_def floor_rat_numeral_div

lemma ceiling_rat_numeral_div: "\<lceil>numeral a / numeral b :: rat\<rceil> = - (- numeral a div numeral b)"
  by (metis ceiling_def floor_divide_of_int_eq minus_divide_left of_int_minus of_int_numeral)

lemmas float_eval = to_double_def floor_log2_def bit_length_nonpos bit_length_pos pow2_def
  round_half_even_def Let_def floor_rat_numeral_div ceiling_rat_numeral_div

section \<open>Units of the report rows\<close>

lemma report_rows_mem:
  "row \<in> set (report_rows sts) \<Longrightarrow> \<exists>st\<in>set sts. row \<in> set (report_row_of st)"
  by (induction sts) auto

text \<open>
  Claim C1, as amended. Every row that the output loop emits comes from an item with a
  total aggregate \<open>t\<close> and carries the item's name. If the name matches
  \<^verbatim>\<open>Bits (received|sent)\<close>, the unit is \<^verbatim>\<open>Mbps\<close> and min, avg and max are those of \<open>t\<close>
  divided by 1000000. If it does not and matches \<^verbatim>\<open>(Disk|CPU|Memory) utilization\<close>, the unit
  is \<^verbatim>\<open>%\<close> and the values are those of \<open>t\<close>. Otherwise the unit is \<^verbatim>\<open>count\<close> and the values
  are those of \<open>t\<close>.
\<close>

theorem unit_classification:
  assumes "row \<in> set (report_rows sts)"
  shows "\<exists>st\<in>set sts. \<exists>t ts. list_of_total st = t # ts \<and> row_type row = item_name (item st) \<and>
           (search_bits (row_type row) \<longrightarrow>
              row_unit row = ''Mbps'' \<and> row_min row = float_div_int (total_min t) 1000000 \<and>
              row_avg row = float_div_int (total_avg t) 1000000 \<and>
              row_max row = float_div_int (total_max t) 1000000) \<and>
           (\<not> search_bits (row_type row) \<and> search_utilization (row_type row) \<longrightarrow>
              row_unit row = ''%'' \<and> row_min row = total_min t \<and>
              row_avg row = total_avg t \<and> row_max row = total_max t) \<and>
           (\<not> search_bits (row_type row) \<and> \<not> search_utilization (row_type row) \<longrightarrow>
              row_unit row = ''count'' \<and> row_min row = total_min t \<and>
              row_avg row = total_avg t \<and> row_max row = total_max t)"
proof -
  from assms obtain st where st: "st \<in> set sts" and row: "row \<in> set (report_row_of st)"
    using report_rows_mem by blast
  from row obtain t ts where tot: "list_of_total st = t # ts"
    by (cases "list_of_total st") (auto simp: report_row_of_def)
  from row tot have "row_type row = item_name (item st)"
    by (simp add: report_row_of_def Let_def)
  with row tot st show ?thesis
    by (intro bexI[of _ st] exI[of _ t] exI[of _ ts]) (auto simp: report_row_of_def Let_def bps_to_mbps_def)
qed

text \<open>
  Claim C1 as stated gives every name that matches \<^verbatim>\<open>(Disk|CPU|Memory) utilization\<close> the
  unit \<^verbatim>\<open>%\<close> and unconverted values. The first branch of the code decides alone: a name
  that matches both patterns is reported in \<^verbatim>\<open>Mbps\<close> with converted values.
\<close>

theorem unit_overlap_counterexample:
  "search_utilization ''CPU utilization, Bits sent'' \<and>
   report_rows
     [\<lparr>item = \<lparr>itemid = ''1'', item_name = ''CPU utilization, Bits sent'', item_key = ''net.if.out[eth0]''\<rparr>,
       item_host = \<lparr>info_hostid = ''10'', host_name = ''srv'', host_vname = ''srv''\<rparr>,
       list_of_days = [], list_of_history_for_total = [],
       list_of_total = [\<lparr>total_itemid = ''CPU utilization, Bits sent'', total_avg = Fin 3000000,
                         total_min = Fin 2000000, total_max = Fin 4000000, total_history_count = 2\<rparr>]\<rparr>]
   = [\<lparr>row_server = ''srv'', row_type = ''CPU utilization, Bits sent'', row_unit = ''Mbps'',
       row_min = Fin 2, row_avg = Fin 3, row_max = Fin 4\<rparr>]"
  by (simp add: search_utilization_def search_bits_def report_row_of_def bps_to_mbps_def
      float_div_int_def float_eval)


text \<open>The theorem of C1 at a row of a network metric.\<close>

theorem unit_classification_witness:
  "\<lparr>row_server = ''srv'', row_type = ''Interface eth0: Bits received'', row_unit = ''Mbps'',
     row_min = Fin 2, row_avg = Fin 3, row_max = Fin 4\<rparr>
   \<in> set (report_rows
     [\<lparr>item = \<lparr>itemid = ''1'', item_name = ''Interface eth0: Bits received'', item_key = ''net.if.in[eth0]''\<rparr>,
       item_host = \<lparr>info_hostid = ''10'', host_name = ''srv'', host_vname = ''srv''\<rparr>,
       list_of_days = [], list_of_history_for_total = [],
       list_of_total = [\<lparr>total_itemid = ''Interface eth0: Bits received'', total_avg = Fin 3000000,
                         total_min = Fin 2000000, total_max = Fin 4000000, total_history_count = 2\<rparr>]\<rparr>])
   \<and> search_bits ''Interface eth0: Bits received''
   \<and> float_div_int (Fin 2000000) 1000000 = Fin 2"
  using unit_classification [of
     "\<lparr>row_server = ''srv'', row_type = ''Interface eth0: Bits received'', row_unit = ''Mbps'',
       row_min = Fin 2, row_avg = Fin 3, row_max = Fin 4\<rparr>"
     "[\<lparr>item = \<lparr>itemid = ''1'', item_name = ''Interface eth0: Bits received'', item_key = ''net.if.in[eth0]''\<rparr>,
       item_host = \<lparr>info_hostid = ''10'', host_name = ''srv'', host_vname = ''srv''\<rparr>,
       list_of_days = [], list_of_history_for_total = [],
       list_of_total = [\<lparr>total_itemid = ''Interface eth0: Bits received'', total_avg = Fin 3000000,
                         total_min = Fin 2000000, total_max = Fin 4000000, total_history_count = 2\<rparr>]\<rparr>]"]
  by (simp add: search_bits_def report_row_of_def bps_to_mbps_def float_div_int_def float_eval)

section \<open>Storage class of the history requests\<close>







section \<open>A host that cannot be resolved\<close>

lemma collect_host_metrics_unresolved:
  "host_get zapi h = Inr [] \<Longrightarrow> collect_host_metrics zapi env h n tz = Inl (HostNotFound h)"
  by (simp add: collect_host_metrics_def get_host_id_def)

lemma collect_all_failure:
  "h \<in> set hs \<Longrightarrow> collect_host_metrics zapi env h n tz = Inl e0 \<Longrightarrow>
   \<exists>e. collect_all zapi env n tz hs acc = Inl e"
proof (induction hs arbitrary: acc)
  case Nil
  then show ?case by simp
next
  case (Cons a hs)
  show ?case
  proof (cases "collect_host_metrics zapi env a n tz")
    case (Inl e)
    then show ?thesis by simp
  next
    case (Inr host_metrics)
    with Cons.prems have "h \<in> set hs" by auto
    with Cons.IH Cons.prems(2) Inr show ?thesis by simp
  qed
qed

text \<open>
  Claim C9. When the session is open and one of the requested host names resolves to no
  host, the run fails: the module reports a message built from the exception, returns no
  rows, and leaves the file system as it was. This holds wherever the name stands in the
  list, so the rows of the hosts before it are dropped.
\<close>

theorem unresolved_host_fails:
  assumes "HAS_ZABBIX env"
    and "connect_zabbix env (zabbix_server params) (username params) (password params) = Inr zapi"
    and "h \<in> set (host_names params)"
    and "host_get zapi h = Inr []"
  shows "\<exists>e. main env params fs = (Fail_json (ErrorCollecting e), fs)"
proof -
  have "collect_host_metrics zapi env h (days_back params) (timezone params) = Inl (HostNotFound h)"
    using assms(4) by (rule collect_host_metrics_unresolved)
  with assms(3) obtain e where
    "collect_all zapi env (days_back params) (timezone params) (host_names params) [] = Inl e"
    using collect_all_failure by blast
  with assms(1,2) show ?thesis by (simp add: main_def)
qed

section \<open>Writing the report\<close>

lemma example_dirname: "os_path_dirname ''/tmp/reports/server_metrics.xlsx'' = ''/tmp/reports''"
  by (simp add: os_path_dirname_def)

lemma example_prefixes: "path_prefixes ''/tmp/reports'' = [''/tmp'', ''/tmp/reports'']"
  by (simp add: path_prefixes_def upt_rec)

text \<open>
  Claim C2 says that the missing directories above the output path are created whether
  or not there are rows. The code creates them in the branch for a non-empty table only.
  With \<^verbatim>\<open>/tmp\<close> present and \<^verbatim>\<open>/tmp/reports\<close> missing, writing an empty table raises and
  creates nothing, while writing one row creates \<^verbatim>\<open>/tmp/reports\<close> and the file.
\<close>

theorem empty_report_skips_makedirs:
  "write_report example_fs ''/tmp/reports/server_metrics.xlsx'' []
     = Inl (OSError ''/tmp/reports/server_metrics.xlsx'')
   \<and> write_report example_fs ''/tmp/reports/server_metrics.xlsx''
       [\<lparr>row_server = ''KDC (192.168.8.3)'', row_type = ''CPU utilization'', row_unit = ''%'',
         row_min = Fin 10, row_avg = Fin 15, row_max = Fin 20\<rparr>]
     = Inr \<lparr>dirs = {''/tmp'', ''/tmp/reports''},
            files = (\<lambda>p. None)(''/tmp/reports/server_metrics.xlsx'' \<mapsto>
              \<lparr>columns = DATA_COLUMNS,
               data_rows = [\<lparr>row_server = ''KDC (192.168.8.3)'', row_type = ''CPU utilization'',
                             row_unit = ''%'', row_min = Fin 10, row_avg = Fin 15,
                             row_max = Fin 20\<rparr>]\<rparr>)\<rparr>"
  by (auto simp add: write_report_def to_excel_def example_dirname example_prefixes example_fs_def
      os_path_exists_def os_makedirs_def)


text \<open>The theorem of C9 with an unknown name after a host that has metrics.\<close>

theorem unresolved_host_fails_witness:
  "HAS_ZABBIX example_env
   \<and> connect_zabbix example_env (zabbix_server example_params) (username example_params)
         (password example_params) = Inr example_api
   \<and> ''ghost'' \<in> set (host_names (example_params\<lparr>host_names := [''KDC (192.168.8.3)'', ''ghost'']\<rparr>))
   \<and> host_get example_api ''ghost'' = Inr []
   \<and> (\<exists>e. main example_env (example_params\<lparr>host_names := [''KDC (192.168.8.3)'', ''ghost'']\<rparr>)
              example_fs = (Fail_json (ErrorCollecting e), example_fs))"
  using unresolved_host_fails [of example_env
      "example_params\<lparr>host_names := [''KDC (192.168.8.3)'', ''ghost'']\<rparr>" example_api "''ghost''" example_fs]
  by (simp add: example_env_def example_params_def example_api_def connect_zabbix_def)

lemma example_no_items:
  "collect_host_metrics example_api env ''DB (192.168.8.4)'' 0 ''Asia/Yekaterinburg'' =
     (case pytz_timezone env ''Asia/Yekaterinburg'' of None \<Rightarrow> Inl (UnknownTimeZoneError ''Asia/Yekaterinburg'')
      | Some tz \<Rightarrow> Inr [])"
  by (simp add: collect_host_metrics_def get_host_id_def example_api_def
      get_timestamp_ekb2timestamp_def Let_def split: option.splits)

text \<open>
  Claim C5 says that a run in which no host yields a row succeeds and leaves a file with
  the header only. For a host without matching items and an output path under a missing
  directory the run fails and no file exists afterwards.
\<close>

theorem empty_result_missing_directory:
  "main example_env (example_params\<lparr>host_names := [''DB (192.168.8.4)'']\<rparr>) example_fs
     = (Fail_json (ErrorCollecting (OSError ''/tmp/reports/server_metrics.xlsx'')), example_fs)
   \<and> files example_fs ''/tmp/reports/server_metrics.xlsx'' = None"
  by (simp add: main_def example_no_items write_report_def to_excel_def example_dirname
      example_env_def example_params_def example_fs_def connect_zabbix_def)

text \<open>
  When the directory part of the output path exists, the run with an empty table
  succeeds and the file holds the six column names and no row.
\<close>

lemma header_only_report:
  assumes "collect_all zapi env (days_back params) (timezone params) (host_names params) [] = Inr []"
    and "HAS_ZABBIX env"
    and "connect_zabbix env (zabbix_server params) (username params) (password params) = Inr zapi"
    and "os_path_dirname (output_path params) = [] \<or> os_path_dirname (output_path params) \<in> dirs fs"
    and "output_path params \<notin> dirs fs"
  shows "main env params fs =
           (Exit_json (output_path params) [],
            fs\<lparr>files := (files fs)(output_path params \<mapsto> \<lparr>columns = DATA_COLUMNS, data_rows = []\<rparr>)\<rparr>)"
  using assms by (simp add: main_def write_report_def to_excel_def)

section \<open>The windows of the working hours\<close>






section \<open>Order of the samples\<close>

lemma max_from_Fin: "max_from (Fin m) (map Fin vs) = Fin (fold max vs m)"
  by (induction vs arbitrary: m) (auto simp: max_def)

lemma min_from_Fin: "min_from (Fin m) (map Fin vs) = Fin (fold min vs m)"
  by (induction vs arbitrary: m) (auto simp: min_def)

lemma py_max_Fin:
  assumes "xs \<noteq> []"
  shows "py_max (map Fin xs) = Fin (Max (set xs))"
proof (cases xs)
  case Nil
  with assms show ?thesis by simp
next
  case (Cons a list)
  then show ?thesis using Max.set_eq_fold[of a list] by (simp add: max_from_Fin)
qed

lemma py_min_Fin:
  assumes "xs \<noteq> []"
  shows "py_min (map Fin xs) = Fin (Min (set xs))"
proof (cases xs)
  case Nil
  with assms show ?thesis by simp
next
  case (Cons a list)
  then show ?thesis using Min.set_eq_fold[of a list] by (simp add: min_from_Fin)
qed

lemma sum_from_exact:
  "exact_from acc vs \<Longrightarrow> sum_from (Fin acc) (map Fin vs) = Fin (acc + sum_list vs)"
  by (induction vs arbitrary: acc) (simp_all add: add.assoc)

lemma py_sum_exact: "exact_from 0 vs \<Longrightarrow> py_sum (map Fin vs) = Fin (sum_list vs)"
  using sum_from_exact[of 0 vs] by (simp add: py_sum_def)

text \<open>
  Claim C6, as amended. For two orders of the same samples the computed min and max and
  the number of samples are the same, and the computed avg is the same whenever no
  running sum is rounded in either order.
\<close>

theorem aggregate_order:
  assumes "mset xs = mset ys"
  shows "py_min (map Fin xs) = py_min (map Fin ys)
       \<and> py_max (map Fin xs) = py_max (map Fin ys)
       \<and> length xs = length ys
       \<and> (exact_from 0 xs \<and> exact_from 0 ys \<longrightarrow>
            float_div_int (py_sum (map Fin xs)) (int (length (map Fin xs)))
              = float_div_int (py_sum (map Fin ys)) (int (length (map Fin ys))))"
proof -
  from assms have set: "set xs = set ys" by (rule mset_eq_setD)
  from assms have len: "length xs = length ys" by (rule mset_eq_length)
  from assms have sum: "sum_list xs = sum_list ys"
    by (metis sum_mset_sum_list)
  have nil: "xs = [] \<longleftrightarrow> ys = []" using len by auto
  have mn: "py_min (map Fin xs) = py_min (map Fin ys)"
    by (cases "xs = []") (use nil set in \<open>simp_all add: py_min_Fin\<close>)
  have mx: "py_max (map Fin xs) = py_max (map Fin ys)"
    by (cases "xs = []") (use nil set in \<open>simp_all add: py_max_Fin\<close>)
  show ?thesis using mn mx len sum by (simp add: py_sum_exact)
qed

text \<open>The theorem of C6 for three samples in two orders.\<close>

theorem aggregate_order_witness:
  "mset [10, 20, 15 :: rat] = mset [20, 15, 10]
   \<and> exact_from 0 [10, 20, 15] \<and> exact_from 0 [20, 15, 10]
   \<and> py_min (map Fin [10, 20, 15]) = Fin 10 \<and> py_min (map Fin [20, 15, 10]) = Fin 10
   \<and> float_div_int (py_sum (map Fin [10, 20, 15])) 3 = Fin 15"
  using aggregate_order [of "[10, 20, 15]" "[20, 15, 10]"]
  by (simp add: float_eval py_sum_def float_div_int_def)

text \<open>
  Claim C6 as stated includes avg. Float addition rounds, and overflows, depending on the
  order: of the three samples \<open>2\<^sup>1\<^sup>0\<^sup>2\<^sup>3\<close>, \<open>2\<^sup>1\<^sup>0\<^sup>2\<^sup>3\<close>, \<open>- 2\<^sup>1\<^sup>0\<^sup>2\<^sup>3\<close> the sum in this order is
  infinite, while with the negative sample in the middle it is \<open>2\<^sup>1\<^sup>0\<^sup>2\<^sup>3\<close>; the stored avg
  is \<^verbatim>\<open>inf\<close> in one order and a finite number in the other.
\<close>

lemma double_2p1023: "to_double (2 ^ 1023) = Fin (2 ^ 1023)"
  by (subst to_double_at[of 1023]) (simp_all add: float_at)

lemma double_2p1024: "to_double (2 ^ 1023 + 2 ^ 1023) = PInf"
  by (subst to_double_at[of 1024]) (simp_all add: float_at)

lemma double_2p1023_third: "to_double (2 ^ 1023 / 3) = Fin (6004799503160661 * 2 ^ 969)"
  by (subst to_double_at[of 1021]) (simp_all add: float_at)

lemma double_third_decimal: "to_double (decimal1 (6004799503160661 * 2 ^ 969)) = Fin (6004799503160661 * 2 ^ 969)"
  unfolding decimal1_def by (subst to_double_at[of 1021]) (simp_all add: float_at)

lemma sum_overflow: "py_sum (map Fin [2 ^ 1023, 2 ^ 1023, - (2 ^ 1023)]) = PInf"
  by (simp only: py_sum_def list.map sum_from.simps float_add.simps add_0 double_2p1023 double_2p1024)

lemma sum_cancel: "py_sum (map Fin [2 ^ 1023, - (2 ^ 1023), 2 ^ 1023]) = Fin (2 ^ 1023)"
proof -
  have z: "to_double (2 ^ 1023 + - (2 ^ 1023)) = Fin 0" by (simp add: to_double_def)
  show ?thesis
    by (simp only: py_sum_def list.map sum_from.simps float_add.simps add_0 double_2p1023 z)
qed

theorem aggregate_order_counterexample:
  "mset [2 ^ 1023, 2 ^ 1023, - (2 ^ 1023) :: rat] = mset [2 ^ 1023, - (2 ^ 1023), 2 ^ 1023]
   \<and> round1 (float_div_int (py_sum (map Fin [2 ^ 1023, 2 ^ 1023, - (2 ^ 1023)])) 3) = PInf
   \<and> round1 (float_div_int (py_sum (map Fin [2 ^ 1023, - (2 ^ 1023), 2 ^ 1023])) 3)
       = Fin (6004799503160661 * 2 ^ 969)"
proof -
  have p: "mset [2 ^ 1023, 2 ^ 1023, - (2 ^ 1023) :: rat] = mset [2 ^ 1023, - (2 ^ 1023), 2 ^ 1023]"
    by (simp add: add_mset_commute)
  have a: "float_div_int PInf 3 = PInf" by (simp add: float_div_int_def)
  have b: "float_div_int (Fin (2 ^ 1023)) 3 = Fin (6004799503160661 * 2 ^ 969)"
    using double_2p1023_third by (simp add: float_div_int_def)
  show ?thesis
    unfolding sum_overflow sum_cancel a b
    using p double_third_decimal by simp
qed

section \<open>The stored aggregates\<close>








end
